theory Spec2Isabelle
  imports Main "HOL-Library.Word"
begin

section \<open>C library functions used by the sources\<close>

text \<open>
  A C string is a \<open>string\<close>: the bytes before the terminating NUL, none of them NUL.
  The functions below follow the C standard, \<open>strptime\<close> follows POSIX and, where POSIX
  leaves a choice, the GNU C library. Of \<open>strcmp\<close> and \<open>strncmp\<close> only the comparison
  of the result with zero is modelled, which is all the sources use. \<open>long\<close> has 64
  bits and \<open>int\<close> 32.
\<close>

definition isspace :: "char \<Rightarrow> bool" where
  \<comment> \<open>the "C" locale: space, \<open>\t\<close>, \<open>\n\<close>, \<open>\v\<close>, \<open>\f\<close>, \<open>\r\<close>\<close>
  "isspace c = (c = CHR '' '' \<or> c = CHR 0x09 \<or> c = CHR 0x0A \<or> c = CHR 0x0B
                \<or> c = CHR 0x0C \<or> c = CHR 0x0D)"

definition isdigit :: "char \<Rightarrow> bool" where
  "isdigit c = (48 \<le> (of_char c :: nat) \<and> (of_char c :: nat) \<le> 57)"

definition digit_val :: "char \<Rightarrow> int" where
  "digit_val c = of_char c - 48"

definition strncmp0 :: "string \<Rightarrow> string \<Rightarrow> nat \<Rightarrow> bool" where
  \<comment> \<open>\<open>strncmp(s1, s2, n) == 0\<close>\<close>
  "strncmp0 s1 s2 n = (take n s1 = take n s2)"

definition strcmp0 :: "string \<Rightarrow> string \<Rightarrow> bool" where
  \<comment> \<open>\<open>strcmp(s1, s2) == 0\<close>\<close>
  "strcmp0 s1 s2 = (s1 = s2)"

definition char_at :: "string \<Rightarrow> nat \<Rightarrow> char" where
  \<comment> \<open>\<open>s[i]\<close> in a NUL-terminated, zero-filled buffer\<close>
  "char_at s i = (if i < length s then s ! i else CHR 0x00)"

definition fgets :: "nat \<Rightarrow> string \<Rightarrow> (string \<times> string) option" where
  \<comment> \<open>\<open>fgets(buf, n, stream)\<close> on the unread rest of a stream: at most \<open>n - 1\<close> bytes, up to
      and including the first newline; NULL at end of file. Returns the bytes read and
      the rest of the stream.\<close>
  "fgets n s =
     (if s = [] then None
      else let k = length (takeWhile (\<lambda>c. c \<noteq> CHR 0x0A) s)
           in if k < n - 1 then Some (take (Suc k) s, drop (Suc k) s)
              else Some (take (n - 1) s, drop (n - 1) s))"

definition LONG_MAX :: int where "LONG_MAX = 2 ^ 63 - 1"
definition LONG_MIN :: int where "LONG_MIN = - (2 ^ 63)"
definition INT_MAX :: int where "INT_MAX = 2 ^ 31 - 1"
definition INT_MIN :: int where "INT_MIN = - (2 ^ 31)"

fun digits_val :: "int \<Rightarrow> string \<Rightarrow> int" where
  "digits_val acc [] = acc"
| "digits_val acc (c # cs) = digits_val (acc * 10 + digit_val c) cs"

definition strtol :: "string \<Rightarrow> int \<times> nat" where
  \<comment> \<open>\<open>strtol(s, &end, 10)\<close> with a 64-bit \<open>long\<close>: the value and \<open>end - s\<close>. White space is
      skipped, one sign is optional, the digits follow; without a digit nothing is
      consumed and the value is 0; a value outside \<open>long\<close> is clamped.\<close>
  "strtol s =
     (let ws = takeWhile isspace s;
          r1 = dropWhile isspace s;
          neg = (r1 \<noteq> [] \<and> hd r1 = CHR ''-'');
          sg = (if r1 \<noteq> [] \<and> (hd r1 = CHR ''-'' \<or> hd r1 = CHR ''+'') then 1 else 0);
          ds = takeWhile isdigit (drop sg r1);
          v = digits_val 0 ds
      in if ds = [] then (0, 0)
         else (if neg then max LONG_MIN (- v) else min LONG_MAX v,
               length ws + sg + length ds))"

record tm =
  tm_sec :: int
  tm_min :: int
  tm_hour :: int
  tm_mday :: int
  tm_mon :: int
  tm_year :: int

definition tm_zero :: tm where
  \<comment> \<open>\<open>struct tm result = { 0 }\<close>\<close>
  "tm_zero = \<lparr>tm_sec = 0, tm_min = 0, tm_hour = 0, tm_mday = 0, tm_mon = 0, tm_year = 0\<rparr>"

fun get_digits :: "nat \<Rightarrow> int \<Rightarrow> int \<Rightarrow> string \<Rightarrow> int \<times> string" where
  \<comment> \<open>further digits of a number: at most \<open>n\<close> more, while the value can still grow within \<open>to\<close>\<close>
  "get_digits 0 to val s = (val, s)"
| "get_digits (Suc n) to val [] = (val, [])"
| "get_digits (Suc n) to val (c # cs) =
     (if val * 10 \<le> to \<and> isdigit c then get_digits n to (val * 10 + digit_val c) cs
      else (val, c # cs))"

definition get_number :: "int \<Rightarrow> int \<Rightarrow> nat \<Rightarrow> string \<Rightarrow> (int \<times> string) option" where
  \<comment> \<open>a number of at most \<open>n\<close> digits between \<open>from\<close> and \<open>to\<close>, after optional spaces\<close>
  "get_number from to n s =
     (case dropWhile (\<lambda>c. c = CHR '' '') s of
        [] \<Rightarrow> None
      | c # cs \<Rightarrow>
          if \<not> isdigit c then None
          else let (val, rest) = get_digits (n - 1) to (digit_val c) cs
               in if val < from \<or> to < val then None else Some (val, rest))"

fun strptime_fmt :: "string \<Rightarrow> string \<Rightarrow> tm \<Rightarrow> tm \<times> string option" where
  \<comment> \<open>\<open>strptime\<close> for the conversions of \<open>FLAGS_TIME_FMT\<close>: the \<open>struct tm\<close> as far as
      it was filled, and the unparsed rest of the text, or \<open>None\<close> for NULL\<close>
  "strptime_fmt [] s t = (t, Some s)"
| "strptime_fmt [c] s t =
     (if isspace c then strptime_fmt [] (dropWhile isspace s) t
      else (case s of [] \<Rightarrow> (t, None)
            | x # xs \<Rightarrow> if x = c then strptime_fmt [] xs t else (t, None)))"
| "strptime_fmt (c # d # fmt) s t =
     (if c = CHR ''%'' then
        (if d = CHR ''Y'' then
           (case get_number 0 9999 4 s of None \<Rightarrow> (t, None)
            | Some (v, r) \<Rightarrow> strptime_fmt fmt r (t\<lparr>tm_year := v - 1900\<rparr>))
         else if d = CHR ''m'' then
           (case get_number 1 12 2 s of None \<Rightarrow> (t, None)
            | Some (v, r) \<Rightarrow> strptime_fmt fmt r (t\<lparr>tm_mon := v - 1\<rparr>))
         else if d = CHR ''d'' then
           (case get_number 1 31 2 s of None \<Rightarrow> (t, None)
            | Some (v, r) \<Rightarrow> strptime_fmt fmt r (t\<lparr>tm_mday := v\<rparr>))
         else if d = CHR ''H'' then
           (case get_number 0 23 2 s of None \<Rightarrow> (t, None)
            | Some (v, r) \<Rightarrow> strptime_fmt fmt r (t\<lparr>tm_hour := v\<rparr>))
         else if d = CHR ''M'' then
           (case get_number 0 59 2 s of None \<Rightarrow> (t, None)
            | Some (v, r) \<Rightarrow> strptime_fmt fmt r (t\<lparr>tm_min := v\<rparr>))
         else if d = CHR ''S'' then
           (case get_number 0 61 2 s of None \<Rightarrow> (t, None)
            | Some (v, r) \<Rightarrow> strptime_fmt fmt r (t\<lparr>tm_sec := v\<rparr>))
         else (t, None))
      else if isspace c then strptime_fmt (d # fmt) (dropWhile isspace s) t
      else (case s of [] \<Rightarrow> (t, None)
            | x # xs \<Rightarrow> if x = c then strptime_fmt (d # fmt) xs t else (t, None)))"

definition FLAGS_TIME_FMT :: string where
  "FLAGS_TIME_FMT = ''%Y-%m-%dT%H:%M:%S''"

definition strptime :: "string \<Rightarrow> string \<Rightarrow> tm \<Rightarrow> tm \<times> nat option" where
  \<comment> \<open>\<open>strptime(s, fmt, &t)\<close>: the \<open>struct tm\<close> it leaves behind, and the returned
      pointer as its offset from \<open>s\<close>, \<open>None\<close> for NULL (the text does not match)\<close>
  "strptime s fmt t =
     (case strptime_fmt fmt s t of
        (t', None) \<Rightarrow> (t', None)
      | (t', Some rest) \<Rightarrow> (t', Some (length s - length rest)))"

section \<open>ini.h\<close>

definition INI_MAX_KEY_SIZE :: nat where "INI_MAX_KEY_SIZE = 128"
definition INI_MAX_LINE_SIZE :: nat where "INI_MAX_LINE_SIZE = 512"

definition INI_ERROR_CODE_NONE :: int where "INI_ERROR_CODE_NONE = 0"
definition INI_ERROR_CODE_OVERFLOW :: int where "INI_ERROR_CODE_OVERFLOW = - 1"
definition INI_ERROR_INVALID_SYNTAX :: int where "INI_ERROR_INVALID_SYNTAX = - 2"

definition stringLength :: "string \<Rightarrow> nat \<Rightarrow> nat" where
  "stringLength s maxlen = min maxlen (length (takeWhile (\<lambda>c. c \<noteq> CHR 0x00) s))"

definition lookupChar :: "string \<Rightarrow> nat \<Rightarrow> char \<Rightarrow> int" where
  "lookupChar buf len c =
     (let k = length (takeWhile (\<lambda>x. x \<noteq> c) (take len buf))
      in if k < length (take len buf) then int k else - 1)"

definition trimRight :: "string \<Rightarrow> nat \<Rightarrow> nat" where
  "trimRight src len = length (dropWhile isspace (rev (take len src)))"

definition trimLeft :: "string \<Rightarrow> nat \<Rightarrow> nat" where
  "trimLeft src len = length (takeWhile isspace (take len src))"

record FILE =
  f_path :: string    \<comment> \<open>the path the stream was opened on\<close>
  f_rest :: string    \<comment> \<open>the bytes not read yet\<close>

record IniParser =
  ini_file :: FILE
  cursor :: nat
  line_len :: nat
  lineno :: nat
  file_owned :: bool
  line :: string

definition iniParserConsume :: "IniParser \<Rightarrow> bool \<times> IniParser" where
  "iniParserConsume parser =
     (let p0 = parser\<lparr>cursor := 0, line_len := 0, line := []\<rparr>
      in case fgets INI_MAX_LINE_SIZE (f_rest (ini_file p0)) of
           None \<Rightarrow> (False, p0)
         | Some (buf, rest) \<Rightarrow>
             (let length = stringLength buf INI_MAX_LINE_SIZE;
                  n = trimRight buf length
              in (True, p0\<lparr>ini_file := (ini_file p0)\<lparr>f_rest := rest\<rparr>, line_len := n,
                           line := take n buf\<rparr>)))"

definition iniParserLine :: "IniParser \<Rightarrow> string option \<times> nat \<times> IniParser" where
  \<comment> \<open>the returned pointer \<open>parser->line + parser->cursor\<close> is given as the text it points to\<close>
  "iniParserLine parser =
     (if line_len parser = 0 then (None, line_len parser, parser)
      else let begin = trimLeft (drop (cursor parser) (line parser)) (line_len parser);
               p1 = parser\<lparr>cursor := cursor parser + begin,
                           line_len := line_len parser - begin\<rparr>
           in if line_len p1 = 0 then (None, line_len p1, p1)
              else (Some (drop (cursor p1) (line p1)), line_len p1, p1))"

lemma fgets_shrinks:
  "fgets n s = Some (buf, rest) \<Longrightarrow> 1 < n \<Longrightarrow> length rest < length s"
  using length_takeWhile_le [of "\<lambda>c. c \<noteq> CHR 0x0A" s]
  by (auto simp: fgets_def Let_def split: if_splits)

lemma iniParserConsume_shrinks:
  "iniParserConsume p = (True, p') \<Longrightarrow> length (f_rest (ini_file p')) < length (f_rest (ini_file p))"
  by (auto simp: iniParserConsume_def Let_def INI_MAX_LINE_SIZE_def
           split: option.splits dest!: fgets_shrinks)

lemma iniParserConsume_le:
  "iniParserConsume p = (ok, p') \<Longrightarrow> length (f_rest (ini_file p')) \<le> length (f_rest (ini_file p))"
  by (cases ok) (auto simp: iniParserConsume_def Let_def INI_MAX_LINE_SIZE_def
           split: option.splits dest!: fgets_shrinks)

lemma iniParserLine_file:
  "iniParserLine p = (l, n, p') \<Longrightarrow> ini_file p' = ini_file p"
  by (auto simp: iniParserLine_def Let_def split: if_splits)

definition iniParseKey_line ::
  "IniParser \<Rightarrow> string \<Rightarrow> nat \<Rightarrow> string \<Rightarrow> nat \<Rightarrow> int \<times> string \<times> IniParser" where
  \<comment> \<open>\<open>iniParseKey\<close>, lines 225-245: the key of a content line\<close>
  "iniParseKey_line parser ln len dst maxlen =
     (let separator = lookupChar ln len CHR ''=''
      in if separator < 2 then (INI_ERROR_INVALID_SYNTAX, dst, parser)
         else let p1 = parser\<lparr>cursor := cursor parser + (nat separator + 1),
                               line_len := line_len parser - (nat separator + 1)\<rparr>;
                  key_len = trimRight ln (nat separator)
              in if key_len > maxlen then (INI_ERROR_CODE_OVERFLOW, dst, p1)
                 else (int key_len, take key_len ln, p1))"

function iniParseKey_loop :: "IniParser \<Rightarrow> string \<Rightarrow> nat \<Rightarrow> int \<times> string \<times> IniParser" where
  \<comment> \<open>\<open>iniParseKey\<close>, lines 217-249: \<open>while (iniParserConsume(parser))\<close>\<close>
  "iniParseKey_loop parser dst maxlen =
     (let (ok, p1) = iniParserConsume parser
      in if \<not> ok then (INI_ERROR_CODE_NONE, dst, p1)
         else let (l, len, p2) = iniParserLine p1;
                  ln = (case l of None \<Rightarrow> [] | Some t \<Rightarrow> t)
              in if len = 0 \<or> char_at ln 0 = CHR '';'' \<or> char_at ln 0 = CHR ''#''
                 then iniParseKey_loop p2 dst maxlen
                 else iniParseKey_line p2 ln len dst maxlen)"
  by pat_completeness auto
termination
  by (relation "measure (\<lambda>(p, dst, maxlen). length (f_rest (ini_file p)))")
     (auto dest!: iniParserConsume_shrinks[OF sym] iniParserLine_file[OF sym])

definition iniParseKey :: "IniParser \<Rightarrow> string \<Rightarrow> nat \<Rightarrow> int \<times> string \<times> IniParser" where
  \<comment> \<open>the result, the key buffer \<open>dst\<close> as a C string, and the parser\<close>
  "iniParseKey parser dst maxlen = iniParseKey_loop parser dst (maxlen - 1)"

definition iniParseValue_copy ::
  "string \<Rightarrow> nat \<Rightarrow> string \<Rightarrow> nat \<Rightarrow> nat \<Rightarrow> bool \<times> nat \<times> string \<times> nat \<times> nat" where
  \<comment> \<open>\<open>iniParseValue\<close>, lines 274-290: one fragment is appended to \<open>dst\<close>, then one space
      if there is room; gives the new \<open>more\<close>, \<open>length\<close>, \<open>dst\<close>, \<open>cursor\<close>, \<open>maxlen\<close>\<close>
  "iniParseValue_copy ln len dst cursr maxlen =
     (let more1 = (char_at ln (len - 1) = CHR 0x5C);
          length1 = (if more1 then trimRight ln (len - 1) else len);
          length2 = (if length1 < maxlen then length1 else maxlen);
          dst1 = take cursr dst @ take length2 ln;
          cursr1 = cursr + length2;
          maxlen1 = maxlen - length2
      in if maxlen1 > 0
         then (more1, length2, take cursr1 dst1 @ [CHR '' ''], cursr1 + 1, maxlen1 - 1)
         else (more1, length2, dst1, cursr1, maxlen1))"

lemma iniParseValue_copy_maxlen:
  "iniParseValue_copy ln len dst cursr maxlen = (more1, len', dst', cursr', maxlen') \<Longrightarrow>
   0 < maxlen \<Longrightarrow> maxlen' < maxlen"
  by (auto simp: iniParseValue_copy_def Let_def split: if_splits)

function iniParseValue_loop ::
  "IniParser \<Rightarrow> string \<Rightarrow> nat \<Rightarrow> string \<Rightarrow> nat \<Rightarrow> nat \<Rightarrow> bool \<Rightarrow> nat \<times> string \<times> IniParser" where
  \<comment> \<open>\<open>iniParseValue\<close>, lines 273-300: \<open>while (more && length > 0 && maxlen > 0)\<close>\<close>
  "iniParseValue_loop parser ln len dst cursr maxlen more0 =
     (if more0 \<and> len > 0 \<and> maxlen > 0 then
        (let (more1, len1, dst1, cursr1, maxlen1) = iniParseValue_copy ln len dst cursr maxlen
         in if more1 \<and> maxlen1 > 0 then
              (let (ok, p1) = iniParserConsume parser;
                   (l, len2, p2) = iniParserLine p1
               in iniParseValue_loop p2 (case l of None \<Rightarrow> [] | Some t \<Rightarrow> t) len2
                    dst1 cursr1 maxlen1 more1)
            else iniParseValue_loop parser ln len1 dst1 cursr1 maxlen1 more1)
      else (cursr, take cursr dst, parser))"
  by pat_completeness auto
termination
  by (relation "measure (\<lambda>(p, ln, len, dst, cursr, maxlen, more0). maxlen)")
     (auto dest!: iniParseValue_copy_maxlen[OF sym])

definition iniParseValue :: "IniParser \<Rightarrow> string \<Rightarrow> nat \<Rightarrow> nat \<times> string \<times> IniParser" where
  \<comment> \<open>the result, the buffer \<open>dst\<close> as a C string, and the parser\<close>
  "iniParseValue parser dst maxlen0 =
     (let (l, len, p1) = iniParserLine parser;
          ln = (case l of None \<Rightarrow> [] | Some t \<Rightarrow> t)
      in if len = 0 then (0, dst, p1)
         else let maxlen = maxlen0 - 1
              in if char_at ln (len - 1) \<noteq> CHR 0x5C then
                   (let len1 = (if len < maxlen then len else maxlen)
                    in (len1, take len1 ln, p1))
                 else iniParseValue_loop p1 ln len dst 0 maxlen True)"

lemma iniParseKey_loop_shrinks:
  "iniParseKey_loop p dst m = (k, d, p') \<Longrightarrow> 0 < k \<Longrightarrow>
   length (f_rest (ini_file p')) < length (f_rest (ini_file p))"
proof (induction p dst m rule: iniParseKey_loop.induct)
  case (1 parser dst maxlen)
  obtain ok p1 where c: "iniParserConsume parser = (ok, p1)"
    by (cases "iniParserConsume parser")
  obtain l n p2 where ln: "iniParserLine p1 = (l, n, p2)"
    by (cases "iniParserLine p1")
  have ok: ok
  proof (rule ccontr)
    assume "\<not> ok"
    then have "k = INI_ERROR_CODE_NONE"
      using "1.prems"(1) c by (subst (asm) iniParseKey_loop.simps) simp
    then show False using "1.prems"(2) by (simp add: INI_ERROR_CODE_NONE_def)
  qed
  have lt: "length (f_rest (ini_file p2)) < length (f_rest (ini_file parser))"
    using iniParserConsume_shrinks c ok iniParserLine_file [OF ln] by auto
  show ?case
  proof (cases "n = 0 \<or> char_at (case l of None \<Rightarrow> [] | Some t \<Rightarrow> t) 0 = CHR '';''
                \<or> char_at (case l of None \<Rightarrow> [] | Some t \<Rightarrow> t) 0 = CHR ''#''")
    case True
    then have "iniParseKey_loop p2 dst maxlen = (k, d, p')"
      using "1.prems"(1) c ln ok by (subst (asm) iniParseKey_loop.simps) auto
    then have "length (f_rest (ini_file p')) < length (f_rest (ini_file p2))"
      using ok "1.prems"(2)
      by (intro "1.IH" [OF refl c [symmetric] _ refl ln [symmetric] refl refl True]) simp_all
    then show ?thesis using lt by simp
  next
    case False
    then have "iniParseKey_line p2 (case l of None \<Rightarrow> [] | Some t \<Rightarrow> t) n dst maxlen = (k, d, p')"
      using "1.prems"(1) c ln ok by (subst (asm) iniParseKey_loop.simps) auto
    then have "ini_file p' = ini_file p2"
      by (auto simp: iniParseKey_line_def Let_def split: if_splits)
    then show ?thesis using lt by simp
  qed
qed

lemma iniParseValue_loop_le:
  "iniParseValue_loop p ln len dst c m more0 = (n, d, p') \<Longrightarrow>
   length (f_rest (ini_file p')) \<le> length (f_rest (ini_file p))"
proof (induction p ln len dst c m more0 rule: iniParseValue_loop.induct)
  case (1 parser ln len dst cursr maxlen more0)
  show ?case
  proof (cases "more0 \<and> len > 0 \<and> maxlen > 0")
    case False
    then show ?thesis using "1.prems" by (subst (asm) iniParseValue_loop.simps) auto
  next
    case True
    obtain more1 len1 dst1 cursr1 maxlen1
      where cp: "iniParseValue_copy ln len dst cursr maxlen = (more1, len1, dst1, cursr1, maxlen1)"
      by (cases "iniParseValue_copy ln len dst cursr maxlen")
    show ?thesis
    proof (cases "more1 \<and> maxlen1 > 0")
      case A: True
      obtain ok p1 where c: "iniParserConsume parser = (ok, p1)"
        by (cases "iniParserConsume parser")
      obtain l n3 p2 where l3: "iniParserLine p1 = (l, n3, p2)"
        by (cases "iniParserLine p1")
      have eq: "iniParseValue_loop p2 (case l of None \<Rightarrow> [] | Some t \<Rightarrow> t) n3
                  dst1 cursr1 maxlen1 more1 = (n, d, p')"
        using "1.prems" True A c l3 cp
        by (subst (asm) iniParseValue_loop.simps) simp
      have "length (f_rest (ini_file p')) \<le> length (f_rest (ini_file p2))"
        by (rule "1.IH"(1) [OF True refl cp [symmetric] refl refl refl A refl c [symmetric]
              refl l3 [symmetric] refl eq])
      then show ?thesis
        using iniParserConsume_le [OF c] iniParserLine_file [OF l3] by simp
    next
      case B: False
      have eq: "iniParseValue_loop parser ln len1 dst1 cursr1 maxlen1 more1 = (n, d, p')"
        using "1.prems" True B cp
        by (subst (asm) iniParseValue_loop.simps) auto
      show ?thesis
        by (rule "1.IH"(2) [OF True refl cp [symmetric] refl refl refl B eq])
    qed
  qed
qed

lemma iniParseKey_shrinks:
  "iniParseKey p dst m = (k, d, p') \<Longrightarrow> 0 < k \<Longrightarrow>
   length (f_rest (ini_file p')) < length (f_rest (ini_file p))"
  unfolding iniParseKey_def by (rule iniParseKey_loop_shrinks)

lemma iniParseValue_le:
  assumes "iniParseValue p dst m = (n, d, p')"
  shows "length (f_rest (ini_file p')) \<le> length (f_rest (ini_file p))"
proof -
  obtain l len p1 where li: "iniParserLine p = (l, len, p1)"
    by (cases "iniParserLine p")
  have f1: "ini_file p1 = ini_file p"
    by (rule iniParserLine_file [OF li])
  define ln where "ln = (case l of None \<Rightarrow> [] | Some t \<Rightarrow> t)"
  consider "p' = p1" | "iniParseValue_loop p1 ln len dst 0 (m - 1) True = (n, d, p')"
    using assms li by (auto simp: iniParseValue_def Let_def ln_def split: if_splits)
  then show ?thesis
  proof cases
    case 1
    then show ?thesis using f1 by simp
  next
    case 2
    then show ?thesis using iniParseValue_loop_le [OF 2] f1 by simp
  qed
qed

section \<open>flag.h\<close>

definition FLAGS_MAX :: nat where "FLAGS_MAX = 256"
definition FLAGS_FLAG_MAX_LEN :: nat where "FLAGS_FLAG_MAX_LEN = 64"
definition CONFIG_BUFFER_SIZE :: nat where "CONFIG_BUFFER_SIZE = 512"

datatype FlagType =
  FLAG_TYPE_BOOL | FLAG_TYPE_STRING | FLAG_TYPE_INT | FLAG_TYPE_FLOAT | FLAG_TYPE_DOUBLE
  | FLAG_TYPE_TIME

text \<open>
  A \<open>char*\<close> is one of: NULL, the token \<open>argv[i]\<close> of the caller, a string of the caller
  given at registration, or block \<open>k\<close> of the heap (\<open>malloc\<close>).
\<close>

datatype char_ptr = NULL | ArgvPtr nat | CallerPtr string | HeapPtr nat

datatype ('f, 'd) FlagValue =
  as_unset | as_string char_ptr | as_int "32 word" | as_float 'f | as_double 'd | as_time_t int

record ('f, 'd) Flag =
  type :: FlagType
  name :: string
  short_name :: char
  description :: string
  ptr :: nat    \<comment> \<open>the address of the caller's variable\<close>
  default_value :: "('f, 'd) FlagValue"

datatype FlagErrorCode =
  FLAG_ERROR_CODE_NONE | FLAG_ERROR_CODE_HELP | FLAG_ERROR_CODE_UNKNOWN
  | FLAG_ERROR_CODE_MISSING_VALUE | FLAG_ERROR_CODE_INVALID_VALUE
  | FLAG_ERROR_CODE_OPEN_CONFIG_FILE

record ('f, 'd) FlagSet =
  flags :: "('f, 'd) Flag list"    \<comment> \<open>\<open>flags[0 .. flags_len - 1]\<close>\<close>
  error_code :: FlagErrorCode
  config_flag_name :: "string option"    \<comment> \<open>\<open>None\<close> is NULL\<close>
  config_flag_desc :: "string option"
  config_flag_short_name :: char
  ignore_unknown :: bool
  error_flag_name :: string

text \<open>
  The state outside the flag set: the caller's variables (by address), the blocks
  allocated by \<open>stringDuplicate\<close>, and the trace of stream and parser events.
\<close>

datatype ('f, 'd) cell =
  CBool bool | CString char_ptr | CInt "32 word" | CFloat 'f | CDouble 'd | CTime int

record hblock =
  hb_size :: nat      \<comment> \<open>the size given to \<open>malloc\<close>\<close>
  hb_bytes :: string  \<comment> \<open>the bytes written from the start of the block\<close>

datatype event =
  Ev_fopen string        \<comment> \<open>\<open>fopen\<close> succeeded on the path\<close>
  | Ev_fclose string     \<comment> \<open>\<open>fclose\<close> of the stream opened on the path\<close>
  | Ev_malloc_parser string  \<comment> \<open>an \<open>IniParser\<close> was allocated for the path\<close>
  | Ev_free_parser string    \<comment> \<open>that \<open>IniParser\<close> was freed\<close>

record ('f, 'd) world =
  mem :: "nat \<Rightarrow> ('f, 'd) cell option"
  heap :: "hblock list"
  trace :: "event list"

text \<open>
  What the platform provides: the readable files, the floating-point conversions of the
  C library with the two casts between \<open>float\<close> and \<open>double\<close>, and \<open>mktime\<close> (which
  depends on the time zone).
\<close>

record ('f, 'd) env =
  files :: "string \<Rightarrow> string option"
  strtof :: "string \<Rightarrow> 'f \<times> nat"    \<comment> \<open>the value and \<open>end - s\<close>\<close>
  strtod :: "string \<Rightarrow> 'd \<times> nat"
  to_float :: "'d \<Rightarrow> 'f"
  to_double :: "'f \<Rightarrow> 'd"
  mktime :: "tm \<Rightarrow> int"

datatype fault =
  AssertionFailed    \<comment> \<open>an \<open>assert\<close> of the sources fails\<close>
  | NullPointer      \<comment> \<open>a NULL string is read\<close>
  | OutOfFuel        \<comment> \<open>config files chained deeper than the bound given\<close>

subsection \<open>ini.h: parsers and their streams\<close>

definition iniParserNew :: "FILE \<Rightarrow> ('f, 'd) world \<Rightarrow> IniParser \<times> ('f, 'd) world" where
  "iniParserNew f w =
     (\<lparr>ini_file = f, cursor = 0, line_len = 0, lineno = 0, file_owned = False, line = []\<rparr>,
      w\<lparr>trace := trace w @ [Ev_malloc_parser (f_path f)]\<rparr>)"

definition iniParserOpen ::
  "('f, 'd) env \<Rightarrow> string \<Rightarrow> ('f, 'd) world \<Rightarrow> IniParser option \<times> ('f, 'd) world" where
  "iniParserOpen e filename w =
     (case files e filename of
        None \<Rightarrow> (None, w)
      | Some content \<Rightarrow>
          (Some \<lparr>ini_file = \<lparr>f_path = filename, f_rest = content\<rparr>, cursor = 0, line_len = 0,
                 lineno = 0, file_owned = True, line = []\<rparr>,
           w\<lparr>trace := trace w @ [Ev_fopen filename, Ev_malloc_parser filename]\<rparr>))"

definition iniParserFree :: "IniParser option \<Rightarrow> ('f, 'd) world \<Rightarrow> ('f, 'd) world" where
  "iniParserFree parser w =
     (case parser of
        None \<Rightarrow> w
      | Some p \<Rightarrow>
          (let w1 = (if file_owned p
                     then w\<lparr>trace := trace w @ [Ev_fclose (f_path (ini_file p))]\<rparr> else w)
           in w1\<lparr>trace := trace w1 @ [Ev_free_parser (f_path (ini_file p))]\<rparr>))"

subsection \<open>The registry\<close>

definition flagSetNew :: "('f, 'd) FlagSet" where
  "flagSetNew = \<lparr>flags = [], error_code = FLAG_ERROR_CODE_NONE, config_flag_name = None,
     config_flag_desc = None, config_flag_short_name = CHR 0x00, ignore_unknown = False,
     error_flag_name = []\<rparr>"

definition flagSetIgnoreUnknown :: "('f, 'd) FlagSet \<Rightarrow> bool \<Rightarrow> ('f, 'd) FlagSet" where
  "flagSetIgnoreUnknown fs ignore = fs\<lparr>ignore_unknown := ignore\<rparr>"

definition flagMake ::
  "('f, 'd) FlagSet \<Rightarrow> nat \<Rightarrow> FlagType \<Rightarrow> string \<Rightarrow> char \<Rightarrow> string
   \<Rightarrow> ('f, 'd) FlagValue \<Rightarrow> fault + ('f, 'd) FlagSet" where
  \<comment> \<open>the new flag is the last of \<open>flags\<close>; its default value is what the caller of
      \<open>flagMake\<close> stores into it next\<close>
  "flagMake fs dst t nm sn desc dv =
     (if \<not> length (flags fs) < FLAGS_MAX then Inl AssertionFailed
      else Inr (fs\<lparr>flags := flags fs @
             [\<lparr>type = t, name = nm, short_name = sn, description = desc, ptr = dst,
               default_value = dv\<rparr>]\<rparr>))"

definition store :: "('f, 'd) world \<Rightarrow> nat \<Rightarrow> ('f, 'd) cell \<Rightarrow> ('f, 'd) world" where
  \<comment> \<open>\<open>*((T* )p) = v\<close>\<close>
  "store w p v = w\<lparr>mem := (mem w)(p \<mapsto> v)\<rparr>"

definition flagSetBoolVar ::
  "('f, 'd) FlagSet \<times> ('f, 'd) world \<Rightarrow> nat \<Rightarrow> string \<Rightarrow> char \<Rightarrow> string
   \<Rightarrow> fault + ('f, 'd) FlagSet \<times> ('f, 'd) world" where
  "flagSetBoolVar s dst nm sn desc =
     (case flagMake (fst s) dst FLAG_TYPE_BOOL nm sn desc as_unset of
        Inl f \<Rightarrow> Inl f
      | Inr fs \<Rightarrow> Inr (fs, store (snd s) dst (CBool False)))"

definition flagSetStringVar ::
  "('f, 'd) FlagSet \<times> ('f, 'd) world \<Rightarrow> nat \<Rightarrow> string \<Rightarrow> char \<Rightarrow> char_ptr \<Rightarrow> string
   \<Rightarrow> fault + ('f, 'd) FlagSet \<times> ('f, 'd) world" where
  "flagSetStringVar s dst nm sn dflt desc =
     (case flagMake (fst s) dst FLAG_TYPE_STRING nm sn desc (as_string dflt) of
        Inl f \<Rightarrow> Inl f
      | Inr fs \<Rightarrow> Inr (fs, store (snd s) dst (CString dflt)))"

definition flagSetIntVar ::
  "('f, 'd) FlagSet \<times> ('f, 'd) world \<Rightarrow> nat \<Rightarrow> string \<Rightarrow> char \<Rightarrow> 32 word \<Rightarrow> string
   \<Rightarrow> fault + ('f, 'd) FlagSet \<times> ('f, 'd) world" where
  "flagSetIntVar s dst nm sn dflt desc =
     (case flagMake (fst s) dst FLAG_TYPE_INT nm sn desc (as_int dflt) of
        Inl f \<Rightarrow> Inl f
      | Inr fs \<Rightarrow> Inr (fs, store (snd s) dst (CInt dflt)))"

definition flagSetFloatVar ::
  "('f, 'd) FlagSet \<times> ('f, 'd) world \<Rightarrow> nat \<Rightarrow> string \<Rightarrow> char \<Rightarrow> 'f \<Rightarrow> string
   \<Rightarrow> fault + ('f, 'd) FlagSet \<times> ('f, 'd) world" where
  "flagSetFloatVar s dst nm sn dflt desc =
     (case flagMake (fst s) dst FLAG_TYPE_FLOAT nm sn desc (as_float dflt) of
        Inl f \<Rightarrow> Inl f
      | Inr fs \<Rightarrow> Inr (fs, store (snd s) dst (CFloat dflt)))"

definition flagSetDoubleVar ::
  "('f, 'd) FlagSet \<times> ('f, 'd) world \<Rightarrow> nat \<Rightarrow> string \<Rightarrow> char \<Rightarrow> 'd \<Rightarrow> string
   \<Rightarrow> fault + ('f, 'd) FlagSet \<times> ('f, 'd) world" where
  "flagSetDoubleVar s dst nm sn dflt desc =
     (case flagMake (fst s) dst FLAG_TYPE_DOUBLE nm sn desc (as_double dflt) of
        Inl f \<Rightarrow> Inl f
      | Inr fs \<Rightarrow> Inr (fs, store (snd s) dst (CDouble dflt)))"

definition flagSetTimeVar ::
  "('f, 'd) FlagSet \<times> ('f, 'd) world \<Rightarrow> nat \<Rightarrow> string \<Rightarrow> char \<Rightarrow> int \<Rightarrow> string
   \<Rightarrow> fault + ('f, 'd) FlagSet \<times> ('f, 'd) world" where
  "flagSetTimeVar s dst nm sn dflt desc =
     (case flagMake (fst s) dst FLAG_TYPE_TIME nm sn desc (as_time_t dflt) of
        Inl f \<Rightarrow> Inl f
      | Inr fs \<Rightarrow> Inr (fs, store (snd s) dst (CTime dflt)))"

definition flagSetConfig ::
  "('f, 'd) FlagSet \<Rightarrow> string \<Rightarrow> char \<Rightarrow> string \<Rightarrow> ('f, 'd) FlagSet" where
  "flagSetConfig fs nm sn desc =
     fs\<lparr>config_flag_name := Some nm, config_flag_short_name := sn,
        config_flag_desc := Some desc\<rparr>"

definition stringDuplicate ::
  "string option \<Rightarrow> nat \<Rightarrow> ('f, 'd) world \<Rightarrow> char_ptr \<times> ('f, 'd) world" where
  \<comment> \<open>the block has \<open>len\<close> bytes; \<open>len + 1\<close> bytes are written, the last one the NUL\<close>
  "stringDuplicate src maxlen w =
     (case src of
        None \<Rightarrow> (NULL, w)
      | Some s \<Rightarrow>
          (let len = (if length s < maxlen then length s else maxlen)
           in (HeapPtr (length (heap w)),
               w\<lparr>heap := heap w @ [\<lparr>hb_size = len, hb_bytes = take len s @ [CHR 0x00]\<rparr>]\<rparr>)))"

definition setError ::
  "('f, 'd) FlagSet \<Rightarrow> FlagErrorCode \<Rightarrow> string \<Rightarrow> ('f, 'd) FlagSet" where
  \<comment> \<open>\<open>strncpy\<close> copies at most \<open>FLAGS_FLAG_MAX_LEN\<close> bytes of the name\<close>
  "setError fs code flag_name =
     fs\<lparr>error_code := code, error_flag_name := take FLAGS_FLAG_MAX_LEN flag_name\<rparr>"

subsection \<open>Lookup\<close>

definition lookupConfigFlag :: "('f, 'd) FlagSet \<Rightarrow> string \<Rightarrow> ('f, 'd) Flag option" where
  "lookupConfigFlag fs flag =
     (let len = length flag
      in if len < 1 then None
         else find (\<lambda>item. strncmp0 (name item) flag len) (flags fs))"

definition lookupFlag :: "('f, 'd) FlagSet \<Rightarrow> string \<Rightarrow> ('f, 'd) Flag option" where
  "lookupFlag fs flag =
     (let len = length flag
      in if len < 2 then None
         else if char_at flag 0 \<noteq> CHR ''-'' then None
         else if char_at flag 1 = CHR ''-''
         then find (\<lambda>item. strncmp0 (name item) (drop 2 flag) (len - 2)) (flags fs)
         else if len = 2
         then find (\<lambda>item. char_at flag 1 = short_name item) (flags fs)
         else None)"

definition isHelpFlag :: "string \<Rightarrow> bool" where
  "isHelpFlag flag =
     (let len = length flag
      in if len < 2 then False
         else if char_at flag 0 \<noteq> CHR ''-'' then False
         else if char_at flag 1 = CHR ''-'' then strcmp0 ''help'' (drop 2 flag)
         else if len = 2 then char_at flag 1 = CHR ''h''
         else False)"

definition isConfigFlag :: "('f, 'd) FlagSet \<Rightarrow> string \<Rightarrow> bool" where
  "isConfigFlag fs flag =
     (case config_flag_name fs of
        None \<Rightarrow> False
      | Some cname \<Rightarrow>
          (let len = length flag
           in if len < 2 then False
              else if char_at flag 0 \<noteq> CHR ''-'' then False
              else if char_at flag 1 = CHR ''-'' then strncmp0 cname (drop 2 flag) (len - 2)
              else if len = 2
              then config_flag_short_name fs \<noteq> CHR 0x00
                   \<and> char_at flag 1 = config_flag_short_name fs
              else False))"

subsection \<open>Merging an INI file\<close>

definition parseIniConfig_switch ::
  "('f, 'd) env \<Rightarrow> ('f, 'd) FlagSet \<Rightarrow> ('f, 'd) world \<Rightarrow> IniParser \<Rightarrow> ('f, 'd) Flag \<Rightarrow> string
   \<Rightarrow> nat \<Rightarrow> ('f, 'd) FlagSet \<times> ('f, 'd) world + ('f, 'd) world" where
  \<comment> \<open>\<open>parseIniConfig\<close>, lines 773-845, \<open>switch (conf->type)\<close> on the value in \<open>buf\<close>:
      \<open>Inl\<close> is \<open>return false\<close>, \<open>Inr\<close> is \<open>break\<close>\<close>
  "parseIniConfig_switch e fs w parser conf buf value_len =
     (case type conf of
        FLAG_TYPE_BOOL \<Rightarrow>
          if strncmp0 buf ''true'' value_len then Inr (store w (ptr conf) (CBool True))
          else if strncmp0 buf ''false'' value_len then Inr (store w (ptr conf) (CBool False))
          else Inl (setError fs FLAG_ERROR_CODE_INVALID_VALUE (name conf),
                    iniParserFree (Some parser) w)
      | FLAG_TYPE_STRING \<Rightarrow>
          (let (p, w1) = stringDuplicate (Some buf) value_len w
           in Inr (store w1 (ptr conf) (CString p)))
      | FLAG_TYPE_INT \<Rightarrow>
          (let (result, n) = strtol buf
           in if n = 0 \<or> result < INT_MIN \<or> INT_MAX < result
              then Inl (setError fs FLAG_ERROR_CODE_INVALID_VALUE (name conf),
                        iniParserFree (Some parser) w)
              else Inr (store w (ptr conf) (CInt (word_of_int result))))
      | FLAG_TYPE_FLOAT \<Rightarrow>
          (let (result, n) = strtof e buf
           in if n = 0
              then Inl (setError fs FLAG_ERROR_CODE_INVALID_VALUE (name conf),
                        iniParserFree (Some parser) w)
              else Inr (store w (ptr conf) (CFloat result)))
      | FLAG_TYPE_DOUBLE \<Rightarrow>
          (let (d, n) = strtod e buf;
               result = to_float e d
           in if n = 0
              then Inl (setError fs FLAG_ERROR_CODE_INVALID_VALUE (name conf),
                        iniParserFree (Some parser) w)
              else Inr (store w (ptr conf) (CDouble (to_double e result))))
      | FLAG_TYPE_TIME \<Rightarrow>
          (let (result, endp) = strptime buf FLAGS_TIME_FMT tm_zero
           in if endp = Some 0
              then Inl (setError fs FLAG_ERROR_CODE_INVALID_VALUE (name conf),
                        iniParserFree (Some parser) w)
              else Inr (store w (ptr conf) (CTime (mktime e result)))))"

lemma iniParseKey_Value_shrinks:
  "(k, d, p1) = iniParseKey p b m \<Longrightarrow> 0 < k \<Longrightarrow> (n, d', p2) = iniParseValue p1 b' m' \<Longrightarrow>
   length (f_rest (ini_file p2)) < length (f_rest (ini_file p))"
  using iniParseKey_shrinks [of p b m k d p1] iniParseValue_le [of p1 b' m' n d' p2]
  by simp

text \<open>
  \<open>parseIniConfig\<close> calls itself on a file named by the config key, with no guard
  against a cycle: the fuel bounds the depth of that chain. The loop over the lines of
  one file ends with the file.
\<close>

function parseIniConfig ::
  "('f, 'd) env \<Rightarrow> nat \<Rightarrow> ('f, 'd) FlagSet \<Rightarrow> ('f, 'd) world \<Rightarrow> string
   \<Rightarrow> fault + bool \<times> ('f, 'd) FlagSet \<times> ('f, 'd) world"
and parseIniConfig_loop ::
  "('f, 'd) env \<Rightarrow> nat \<Rightarrow> ('f, 'd) FlagSet \<Rightarrow> ('f, 'd) world \<Rightarrow> IniParser \<Rightarrow> string
   \<Rightarrow> fault + bool \<times> ('f, 'd) FlagSet \<times> ('f, 'd) world"
where
  "parseIniConfig e 0 fs w filename = Inl OutOfFuel"
| "parseIniConfig e (Suc n) fs w filename =
     (case iniParserOpen e filename w of
        (None, w1) \<Rightarrow>
          (case config_flag_name fs of
             None \<Rightarrow> Inl NullPointer
           | Some cname \<Rightarrow> Inr (False, setError fs FLAG_ERROR_CODE_OPEN_CONFIG_FILE cname, w1))
      | (Some parser, w1) \<Rightarrow> parseIniConfig_loop e n fs w1 parser [])"
| "parseIniConfig_loop e n fs w parser buf =
     (let (k, buf1, p1) = iniParseKey parser buf FLAGS_FLAG_MAX_LEN
      in if \<not> 0 < k then Inr (True, fs, w)
         else if (case config_flag_name fs of None \<Rightarrow> False | Some cname \<Rightarrow> strcmp0 cname buf1)
         then (let (vl, buf2, p2) = iniParseValue p1 buf1 CONFIG_BUFFER_SIZE
               in if vl = 0
                  then Inr (False, setError fs FLAG_ERROR_CODE_MISSING_VALUE buf2,
                            iniParserFree (Some p2) w)
                  else (case parseIniConfig e n fs w buf2 of
                          Inl f \<Rightarrow> Inl f
                        | Inr (ok, fs1, w1) \<Rightarrow>
                            if \<not> ok then Inr (False, fs1, w1)
                            else parseIniConfig_loop e n fs1 w1 p2 []))
         else (case lookupConfigFlag fs buf1 of
                 None \<Rightarrow>
                   if ignore_unknown fs then parseIniConfig_loop e n fs w p1 []
                   else Inr (False, setError fs FLAG_ERROR_CODE_UNKNOWN buf1,
                             iniParserFree (Some p1) w)
               | Some conf \<Rightarrow>
                   (let (value_len, buf2, p2) = iniParseValue p1 [] CONFIG_BUFFER_SIZE
                    in if value_len = 0
                       then Inr (False, setError fs FLAG_ERROR_CODE_MISSING_VALUE (name conf),
                                 iniParserFree (Some p2) w)
                       else (case parseIniConfig_switch e fs w p2 conf buf2 value_len of
                               Inl (fs1, w1) \<Rightarrow> Inr (False, fs1, w1)
                             | Inr w1 \<Rightarrow> parseIniConfig_loop e n fs w1 p2 []))))"
  by pat_completeness auto
termination
  apply (relation "measures
     [\<lambda>x. case x of Inl (e, fuel, fs, w, filename) \<Rightarrow> 2 * fuel
               | Inr (e, n, fs, w, parser, buf) \<Rightarrow> 2 * n + 1,
      \<lambda>x. case x of Inl (e, fuel, fs, w, filename) \<Rightarrow> 0
               | Inr (e, n, fs, w, parser, buf) \<Rightarrow> length (f_rest (ini_file parser))]")
  apply simp_all
  apply (auto dest: iniParseKey_shrinks[OF sym] intro: iniParseKey_Value_shrinks)
  done

subsection \<open>Parsing the command line\<close>

text \<open>
  The pair \<open>argc\<close>, \<open>argv\<close> of \<open>flagSetParse\<close> is the list of the tokens not shifted yet
  together with the index in the caller's \<open>argv\<close> of the first of them.
\<close>

definition flagSetParse_switch ::
  "('f, 'd) env \<Rightarrow> ('f, 'd) FlagSet \<Rightarrow> ('f, 'd) world \<Rightarrow> ('f, 'd) Flag \<Rightarrow> nat \<Rightarrow> string list
   \<Rightarrow> ('f, 'd) FlagSet + ('f, 'd) world \<times> nat \<times> string list" where
  \<comment> \<open>\<open>flagSetParse\<close>, lines 520-601, \<open>switch (conf->type)\<close>: \<open>Inl\<close> is \<open>return false\<close>,
      \<open>Inr\<close> is \<open>break\<close>\<close>
  "flagSetParse_switch e fs w conf i args =
     (case type conf of
        FLAG_TYPE_BOOL \<Rightarrow> Inr (store w (ptr conf) (CBool True), i, args)
      | FLAG_TYPE_STRING \<Rightarrow>
          (case args of
             [] \<Rightarrow> Inl (setError fs FLAG_ERROR_CODE_MISSING_VALUE (name conf))
           | v # rest \<Rightarrow> Inr (store w (ptr conf) (CString (ArgvPtr i)), Suc i, rest))
      | FLAG_TYPE_INT \<Rightarrow>
          (case args of
             [] \<Rightarrow> Inl (setError fs FLAG_ERROR_CODE_MISSING_VALUE (name conf))
           | v # rest \<Rightarrow>
               (let (result, n) = strtol v
                in if n = 0 \<or> result < INT_MIN \<or> INT_MAX < result
                   then Inl (setError fs FLAG_ERROR_CODE_INVALID_VALUE (name conf))
                   else Inr (store w (ptr conf) (CInt (word_of_int result)), Suc i, rest)))
      | FLAG_TYPE_FLOAT \<Rightarrow>
          (case args of
             [] \<Rightarrow> Inl (setError fs FLAG_ERROR_CODE_MISSING_VALUE (name conf))
           | v # rest \<Rightarrow>
               (let (result, n) = strtof e v
                in if n = 0
                   then Inl (setError fs FLAG_ERROR_CODE_INVALID_VALUE (name conf))
                   else Inr (store w (ptr conf) (CFloat result), Suc i, rest)))
      | FLAG_TYPE_DOUBLE \<Rightarrow>
          (case args of
             [] \<Rightarrow> Inl (setError fs FLAG_ERROR_CODE_MISSING_VALUE (name conf))
           | v # rest \<Rightarrow>
               (let (d, n) = strtod e v;
                    result = to_float e d
                in if n = 0
                   then Inl (setError fs FLAG_ERROR_CODE_INVALID_VALUE (name conf))
                   else Inr (store w (ptr conf) (CDouble (to_double e result)), Suc i, rest)))
      | FLAG_TYPE_TIME \<Rightarrow>
          (case args of
             [] \<Rightarrow> Inl (setError fs FLAG_ERROR_CODE_MISSING_VALUE (name conf))
           | v # rest \<Rightarrow>
               (let (result, endp) = strptime v FLAGS_TIME_FMT tm_zero
                in if endp = Some 0
                   then Inl (setError fs FLAG_ERROR_CODE_INVALID_VALUE (name conf))
                   else Inr (store w (ptr conf) (CTime (mktime e result)), Suc i, rest))))"

lemma flagSetParse_switch_length:
  "flagSetParse_switch e fs w conf i args = Inr (w', i', args') \<Longrightarrow> length args' \<le> length args"
  by (cases "type conf")
     (auto simp: flagSetParse_switch_def Let_def split: list.splits prod.splits if_splits)

function flagSetParse_loop ::
  "('f, 'd) env \<Rightarrow> nat \<Rightarrow> ('f, 'd) FlagSet \<Rightarrow> ('f, 'd) world \<Rightarrow> nat \<Rightarrow> string list
   \<Rightarrow> fault + bool \<times> ('f, 'd) FlagSet \<times> ('f, 'd) world" where
  \<comment> \<open>\<open>flagSetParse\<close>, lines 487-604: \<open>while (argc > 0)\<close>\<close>
  "flagSetParse_loop e fuel fs w i [] = Inr (True, fs, w)"
| "flagSetParse_loop e fuel fs w i (flag # args) =
     (if isConfigFlag fs flag then
        (case args of
           [] \<Rightarrow> Inr (False, setError fs FLAG_ERROR_CODE_MISSING_VALUE flag, w)
         | filename # rest \<Rightarrow>
             (case parseIniConfig e fuel fs w filename of
                Inl f \<Rightarrow> Inl f
              | Inr (ok, fs1, w1) \<Rightarrow>
                  if \<not> ok then Inr (False, fs1, w1)
                  else flagSetParse_loop e fuel fs1 w1 (i + 2) rest))
      else
        (case lookupFlag fs flag of
           None \<Rightarrow>
             if ignore_unknown fs then flagSetParse_loop e fuel fs w (Suc i) args
             else if isHelpFlag flag then Inr (False, setError fs FLAG_ERROR_CODE_HELP flag, w)
             else Inr (False, setError fs FLAG_ERROR_CODE_UNKNOWN flag, w)
         | Some conf \<Rightarrow>
             (case flagSetParse_switch e fs w conf (Suc i) args of
                Inl fs1 \<Rightarrow> Inr (False, fs1, w)
              | Inr (w1, i1, args1) \<Rightarrow> flagSetParse_loop e fuel fs w1 i1 args1)))"
  by pat_completeness auto
termination
  by (relation "measure (\<lambda>(e, fuel, fs, w, i, args). length args)")
     (auto dest: flagSetParse_switch_length)

definition flagSetParse ::
  "('f, 'd) env \<Rightarrow> nat \<Rightarrow> ('f, 'd) FlagSet \<Rightarrow> ('f, 'd) world \<Rightarrow> string list
   \<Rightarrow> fault + bool \<times> ('f, 'd) FlagSet \<times> ('f, 'd) world" where
  \<comment> \<open>the first \<open>shiftArgs\<close> asserts \<open>argc > 0\<close>; the fuel is handed to \<open>parseIniConfig\<close>\<close>
  "flagSetParse e fuel fs w argv =
     (case argv of
        [] \<Rightarrow> Inl AssertionFailed
      | prog # args \<Rightarrow> flagSetParse_loop e fuel fs w 1 args)"

section \<open>A registry, files and a platform to run the parser on\<close>

definition days_from_civil :: "int \<Rightarrow> int \<Rightarrow> int \<Rightarrow> int" where
  \<comment> \<open>the days from 1970-01-01 to the day \<open>d\<close> of month \<open>m\<close> (1 to 12) of year \<open>y\<close>\<close>
  "days_from_civil y m d =
     (let y1 = (if m \<le> 2 then y - 1 else y);
          era = y1 div 400;
          yoe = y1 - era * 400;
          doy = (153 * (if 2 < m then m - 3 else m + 9) + 2) div 5 + d - 1;
          doe = yoe * 365 + yoe div 4 - yoe div 100 + doy
      in era * 146097 + doe - 719468)"

definition mktime_utc :: "tm \<Rightarrow> int" where
  \<comment> \<open>\<open>mktime\<close> in the time zone UTC, for months 0 to 11\<close>
  "mktime_utc t =
     ((days_from_civil (tm_year t + 1900) (tm_mon t + 1) (tm_mday t) * 24 + tm_hour t) * 60
        + tm_min t) * 60 + tm_sec t"

definition ex_env :: "(string \<times> string) list \<Rightarrow> (unit, unit) env" where
  \<comment> \<open>a platform with the given files; no floating-point value is told from another\<close>
  "ex_env fsys = \<lparr>files = map_of fsys, strtof = (\<lambda>s. ((), 0)), strtod = (\<lambda>s. ((), 0)),
     to_float = (\<lambda>d. ()), to_double = (\<lambda>f. ()), mktime = mktime_utc\<rparr>"

definition ex_world :: "(unit, unit) world" where
  "ex_world = \<lparr>mem = Map.empty, heap = [], trace = []\<rparr>"

definition and_then :: "fault + 'a \<Rightarrow> ('a \<Rightarrow> fault + 'b) \<Rightarrow> fault + 'b" where
  "and_then r f = (case r of Inl x \<Rightarrow> Inl x | Inr s \<Rightarrow> f s)"

definition registered ::
  "fault + ('f, 'd) FlagSet \<times> ('f, 'd) world \<Rightarrow> ('f, 'd) FlagSet \<times> ('f, 'd) world" where
  \<comment> \<open>the flag set and the state after registrations none of which failed\<close>
  "registered r = (case r of Inl x \<Rightarrow> (flagSetNew, \<lparr>mem = Map.empty, heap = [], trace = []\<rparr>)
                   | Inr s \<Rightarrow> s)"

definition ex_flags :: "(unit, unit) FlagSet \<times> (unit, unit) world" where
  \<comment> \<open>\<open>--verbose\<close>/\<open>-v\<close> at address 0, \<open>--name\<close>/\<open>-n\<close> at 1, \<open>--count\<close>/\<open>-c\<close> at 2,
      \<open>--when\<close>/\<open>-w\<close> at 3\<close>
  "ex_flags = registered
     (and_then (flagSetBoolVar (flagSetNew, ex_world) 0 ''verbose'' CHR ''v'' ''Be verbose'')
     (\<lambda>s. and_then (flagSetStringVar s 1 ''name'' CHR ''n'' (CallerPtr ''nobody'') ''A name'')
     (\<lambda>s. and_then (flagSetIntVar s 2 ''count'' CHR ''c'' 7 ''A count'')
     (\<lambda>s. flagSetTimeVar s 3 ''when'' CHR ''w'' 0 ''A time''))))"

definition outcome ::
  "fault + bool \<times> ('f, 'd) FlagSet \<times> ('f, 'd) world \<Rightarrow> nat list
   \<Rightarrow> fault + bool \<times> FlagErrorCode \<times> string \<times> ('f, 'd) cell option list \<times> hblock list
        \<times> event list" where
  \<comment> \<open>what a caller sees of a parse: the result, the error record, the variables at the
      given addresses, the heap and the trace\<close>
  "outcome r addrs =
     (case r of
        Inl x \<Rightarrow> Inl x
      | Inr (ok, fs, w) \<Rightarrow>
          Inr (ok, error_code fs, error_flag_name fs, map (mem w) addrs, heap w, trace w))"

definition ex_parser :: "string \<Rightarrow> string \<Rightarrow> IniParser" where
  \<comment> \<open>the parser that \<open>iniParserOpen\<close> makes for a file with the given content\<close>
  "ex_parser path content = \<lparr>ini_file = \<lparr>f_path = path, f_rest = content\<rparr>, cursor = 0,
     line_len = 0, lineno = 0, file_owned = True, line = []\<rparr>"

definition key_value :: "IniParser \<Rightarrow> int \<times> string \<times> nat \<times> string" where
  \<comment> \<open>\<open>iniParseKey\<close>, then \<open>iniParseValue\<close>, with the buffer sizes of \<open>parseIniConfig\<close>: the two
      results and the two texts\<close>
  "key_value p =
     (let (k, key, p1) = iniParseKey p [] FLAGS_FLAG_MAX_LEN;
          (n, v, p2) = iniParseValue p1 [] CONFIG_BUFFER_SIZE
      in (k, key, n, v))"

definition ex_verb_flags :: "(unit, unit) FlagSet \<times> (unit, unit) world" where
  \<comment> \<open>\<open>--verbose\<close> at address 0, registered first, and \<open>--verb\<close> at address 1\<close>
  "ex_verb_flags = registered
     (and_then (flagSetBoolVar (flagSetNew, ex_world) 0 ''verbose'' CHR ''v'' ''Be verbose'')
     (\<lambda>s. flagSetBoolVar s 1 ''verb'' CHR ''b'' ''A verb''))"

definition ex_count_flag :: "(unit, unit) Flag" where
  \<comment> \<open>the flag \<open>--count\<close> of \<open>ex_flags\<close>\<close>
  "ex_count_flag = \<lparr>type = FLAG_TYPE_INT, name = ''count'', short_name = CHR ''c'',
     description = ''A count'', ptr = 2, default_value = as_int 7\<rparr>"

definition ex_name_flag :: "(unit, unit) Flag" where
  \<comment> \<open>the flag \<open>--name\<close> of \<open>ex_flags\<close>\<close>
  "ex_name_flag = \<lparr>type = FLAG_TYPE_STRING, name = ''name'', short_name = CHR ''n'',
     description = ''A name'', ptr = 1, default_value = as_string (CallerPtr ''nobody'')\<rparr>"

section \<open>Facts about the library functions and the parser\<close>

lemma strncmp0_prefix:
  "strncmp0 n k (length k) \<longleftrightarrow> (\<exists>s. n = k @ s)"
proof
  assume "strncmp0 n k (length k)"
  then have "take (length k) n = k" by (simp add: strncmp0_def)
  then have "n = k @ drop (length k) n" by (metis append_take_drop_id)
  then show "\<exists>s. n = k @ s" ..
next
  assume "\<exists>s. n = k @ s"
  then show "strncmp0 n k (length k)" by (auto simp: strncmp0_def)
qed

lemma flagSetParse_token:
  assumes "\<not> isConfigFlag fs tok" and "lookupFlag fs tok = Some conf"
  shows "flagSetParse e fuel fs w (prog # tok # args) =
     (case flagSetParse_switch e fs w conf 2 args of
        Inl fs1 \<Rightarrow> Inr (False, fs1, w)
      | Inr (w1, i1, args1) \<Rightarrow> flagSetParse_loop e fuel fs w1 i1 args1)"
  using assms by (simp add: flagSetParse_def numeral_2_eq_2)

lemma isdigit_not_isspace: "isdigit c \<Longrightarrow> \<not> isspace c"
  by (auto simp: isdigit_def isspace_def)

lemma isdigit_not_sign: "isdigit c \<Longrightarrow> c \<noteq> CHR ''-'' \<and> c \<noteq> CHR ''+''"
  by (auto simp: isdigit_def)

lemma takeWhile_digits:
  assumes "list_all isdigit ds" and "r = [] \<or> \<not> isdigit (hd r)"
  shows "takeWhile isdigit (ds @ r) = ds"
proof -
  have "takeWhile isdigit r = []"
    using assms(2) by (cases r) auto
  moreover have "\<And>x. x \<in> set ds \<Longrightarrow> isdigit x"
    using assms(1) by (simp add: list_all_iff)
  ultimately show ?thesis by (simp add: takeWhile_append2)
qed

lemma strtol_digits:
  assumes "ds \<noteq> []" and "list_all isdigit ds" and "r = [] \<or> \<not> isdigit (hd r)"
  shows "strtol (ds @ r) = (min LONG_MAX (digits_val 0 ds), length ds)"
proof -
  obtain d ds' where ds: "ds = d # ds'"
    using assms(1) by (cases ds) auto
  have d: "isdigit d"
    using assms(2) ds by simp
  have ws: "takeWhile isspace (ds @ r) = []" "dropWhile isspace (ds @ r) = ds @ r"
    using isdigit_not_isspace [OF d] ds by simp_all
  have sg: "hd (ds @ r) \<noteq> CHR ''-''" "hd (ds @ r) \<noteq> CHR ''+''"
    using isdigit_not_sign [OF d] ds by simp_all
  have nonempty: "ds @ r \<noteq> []"
    using assms(1) by simp
  show ?thesis
    unfolding strtol_def Let_def ws
    using sg nonempty assms(1) takeWhile_digits [OF assms(2,3)] by simp
qed

lemma mem_iniParserFree: "mem (iniParserFree p w) = mem w"
  by (cases p) (simp_all add: iniParserFree_def Let_def)

section \<open>The claims\<close>

text \<open>
  C1. During INI merging, every failure reported by the key scanner (a syntax error or
  a key longer than the key buffer) should make \<open>parseIniConfig\<close> report failure with an
  error record. The code does not: on the file \<open>x=1\<close>, \<open>count = 5\<close> the scanner
  returns \<open>INI_ERROR_INVALID_SYNTAX\<close> for the first line, and on a line with a key of 64
  characters it returns \<open>INI_ERROR_CODE_OVERFLOW\<close>; in both cases the loop condition
  \<open>iniParseKey(...) > 0\<close> takes the negative result for the end of the file, and the merge
  returns true with no error recorded, the rest of the file unread.
\<close>

theorem parseIniConfig_ini_error_returns_true:
  "fst (iniParseKey (ex_parser ''bad.ini'' ''x=1\<newline>count = 5\<newline>'') [] FLAGS_FLAG_MAX_LEN)
     = INI_ERROR_INVALID_SYNTAX
   \<and> outcome (parseIniConfig (ex_env [(''bad.ini'', ''x=1\<newline>count = 5\<newline>'')]) 1
        (fst ex_flags) (snd ex_flags) ''bad.ini'') [2]
     = Inr (True, FLAG_ERROR_CODE_NONE, [], [Some (CInt 7)], [],
            [Ev_fopen ''bad.ini'', Ev_malloc_parser ''bad.ini''])
   \<and> fst (iniParseKey (ex_parser ''long.ini'' (replicate 64 CHR ''k'' @ '' = 1\<newline>count = 5\<newline>''))
        [] FLAGS_FLAG_MAX_LEN)
     = INI_ERROR_CODE_OVERFLOW
   \<and> outcome (parseIniConfig
        (ex_env [(''long.ini'', replicate 64 CHR ''k'' @ '' = 1\<newline>count = 5\<newline>'')]) 1
        (fst ex_flags) (snd ex_flags) ''long.ini'') [2]
     = Inr (True, FLAG_ERROR_CODE_NONE, [], [Some (CInt 7)], [],
            [Ev_fopen ''long.ini'', Ev_malloc_parser ''long.ini''])"
  by code_simp

text \<open>
  C2. A text that does not match \<open>FLAGS_TIME_FMT\<close> should give InvalidValue for a Time
  flag and leave its variable alone. The code compares the result of \<open>strptime\<close> with the
  start of the text, but \<open>strptime\<close> returns NULL on a mismatch: for the text \<open>garbage\<close>,
  from the command line as from a config file, the parse succeeds and the variable
  receives \<open>mktime\<close> of the zeroed \<open>struct tm\<close>.
\<close>

theorem time_mismatch_is_stored:
  "snd (strptime ''garbage'' FLAGS_TIME_FMT tm_zero) = None
   \<and> outcome (flagSetParse (ex_env []) 0 (fst ex_flags) (snd ex_flags)
        [''prog'', ''--when'', ''garbage'']) [3]
     = Inr (True, FLAG_ERROR_CODE_NONE, [], [Some (CTime (mktime_utc tm_zero))], [], [])
   \<and> outcome (parseIniConfig (ex_env [(''t.ini'', ''when = garbage\<newline>'')]) 1
        (fst ex_flags) (snd ex_flags) ''t.ini'') [3]
     = Inr (True, FLAG_ERROR_CODE_NONE, [], [Some (CTime (mktime_utc tm_zero))], [],
            [Ev_fopen ''t.ini'', Ev_malloc_parser ''t.ini''])
   \<and> mktime_utc tm_zero = - 2209075200"
  by code_simp

text \<open>
  C4. For a Bool flag in a config file only the texts \<open>true\<close> and \<open>false\<close> should be
  accepted. The code compares with \<open>strncmp\<close> over the length of the value, so that every
  non-empty prefix of \<open>true\<close> sets the variable to true and every non-empty prefix of
  \<open>false\<close> sets it to false: \<open>tru\<close> gives true and \<open>f\<close> gives false, where \<open>maybe\<close>
  gives InvalidValue.
\<close>

theorem bool_prefix_is_accepted:
  "outcome (parseIniConfig (ex_env [(''b.ini'', ''verbose = tru\<newline>'')]) 1
        (fst ex_flags) (snd ex_flags) ''b.ini'') [0]
     = Inr (True, FLAG_ERROR_CODE_NONE, [], [Some (CBool True)], [],
            [Ev_fopen ''b.ini'', Ev_malloc_parser ''b.ini''])
   \<and> outcome (parseIniConfig (ex_env [(''b.ini'', ''verbose = true\<newline>verbose = f\<newline>'')]) 1
        (fst ex_flags) (snd ex_flags) ''b.ini'') [0]
     = Inr (True, FLAG_ERROR_CODE_NONE, [], [Some (CBool False)], [],
            [Ev_fopen ''b.ini'', Ev_malloc_parser ''b.ini''])
   \<and> outcome (parseIniConfig (ex_env [(''b.ini'', ''verbose = maybe\<newline>'')]) 1
        (fst ex_flags) (snd ex_flags) ''b.ini'') [0]
     = Inr (False, FLAG_ERROR_CODE_INVALID_VALUE, ''verbose'', [Some (CBool False)], [],
            [Ev_fopen ''b.ini'', Ev_malloc_parser ''b.ini'', Ev_fclose ''b.ini'',
             Ev_free_parser ''b.ini''])"
  by code_simp

text \<open>
  C6. The file with the line \<open>key = part1\<close>, a space and a backslash, followed by the
  line \<open>part2\<close>, should give the value \<open>part1 part2\<close>. The loop of \<open>iniParseValue\<close>
  appends a space after every fragment, the last one too: the value is \<open>part1 part2\<close>
  followed by a space, of length 12, and this is the text a String flag receives.
\<close>

theorem continuation_value_has_trailing_space:
  "key_value (ex_parser ''c.ini'' (''key = part1 '' @ [CHR 0x5C, CHR 0x0A] @ ''part2\<newline>''))
     = (3, ''key'', 12, ''part1 part2 '')
   \<and> outcome (parseIniConfig
        (ex_env [(''c.ini'', ''name = part1 '' @ [CHR 0x5C, CHR 0x0A] @ ''part2\<newline>'')]) 1
        (fst ex_flags) (snd ex_flags) ''c.ini'') [1]
     = Inr (True, FLAG_ERROR_CODE_NONE, [], [Some (CString (HeapPtr 0))],
            [\<lparr>hb_size = 12, hb_bytes = ''part1 part2 '' @ [CHR 0x00]\<rparr>],
            [Ev_fopen ''c.ini'', Ev_malloc_parser ''c.ini''])"
  by code_simp

text \<open>
  C7. The parser of a file should be released exactly once on every exit path, its
  stream closed with it. \<open>parseIniConfig\<close> calls \<open>iniParserFree\<close> where it reports an
  unknown key or a missing or invalid value, but not where it returns true, nor where
  a chained file fails: after a successful merge of \<open>ok.ini\<close> the trace holds its
  \<open>fopen\<close> and no \<open>fclose\<close>; after a chained file that cannot be opened, the same; after
  an unknown key the stream is closed and the parser freed.
\<close>

theorem parser_not_released_on_success:
  "outcome (parseIniConfig (ex_env [(''ok.ini'', ''count = 5\<newline>'')]) 1
        (fst ex_flags) (snd ex_flags) ''ok.ini'') [2]
     = Inr (True, FLAG_ERROR_CODE_NONE, [], [Some (CInt 5)], [],
            [Ev_fopen ''ok.ini'', Ev_malloc_parser ''ok.ini''])
   \<and> outcome (parseIniConfig (ex_env [(''ok.ini'', ''conf = nope.ini\<newline>'')]) 2
        (flagSetConfig (fst ex_flags) ''conf'' CHR ''f'' ''A config file'') (snd ex_flags)
        ''ok.ini'') [2]
     = Inr (False, FLAG_ERROR_CODE_OPEN_CONFIG_FILE, ''conf'', [Some (CInt 7)], [],
            [Ev_fopen ''ok.ini'', Ev_malloc_parser ''ok.ini''])
   \<and> outcome (parseIniConfig (ex_env [(''ok.ini'', ''bogus = 5\<newline>'')]) 1
        (fst ex_flags) (snd ex_flags) ''ok.ini'') [2]
     = Inr (False, FLAG_ERROR_CODE_UNKNOWN, ''bogus'', [Some (CInt 7)], [],
            [Ev_fopen ''ok.ini'', Ev_malloc_parser ''ok.ini'', Ev_fclose ''ok.ini'',
             Ev_free_parser ''ok.ini''])"
  by code_simp

text \<open>
  C5, as the claim states it: a key that is a proper prefix of a registered name, and
  equal to none, finds no flag. It does: the key \<open>verb\<close> finds the flag \<open>verbose\<close>, and
  the line \<open>verb = true\<close> of a config file sets it.
\<close>

theorem lookupConfigFlag_exact_counterexample:
  "map_option name (lookupConfigFlag (fst ex_flags) ''verb'') = Some ''verbose''
   \<and> map name (flags (fst ex_flags)) = [''verbose'', ''name'', ''count'', ''when'']
   \<and> outcome (parseIniConfig (ex_env [(''k.ini'', ''verb = true\<newline>'')]) 1
        (fst ex_flags) (snd ex_flags) ''k.ini'') [0]
     = Inr (True, FLAG_ERROR_CODE_NONE, [], [Some (CBool True)], [],
            [Ev_fopen ''k.ini'', Ev_malloc_parser ''k.ini''])"
  by code_simp

text \<open>
  C5, amended. \<open>lookupConfigFlag\<close> compares over the length of the key, as \<open>lookupFlag\<close>
  does over the length of the token's text: an empty key finds nothing, and any other
  key finds the first flag, in the order of declaration, whose name begins with the
  key. So a key finds no flag exactly when it is empty or no registered name begins
  with it, and a key equal to a registered name finds that flag or an earlier one whose
  name begins with it.
\<close>

theorem lookupConfigFlag_first_prefix_match:
  "lookupConfigFlag fs key =
     (if key = [] then None else find (\<lambda>item. \<exists>s. name item = key @ s) (flags fs))"
proof (cases "key = []")
  case True
  then show ?thesis by (simp add: lookupConfigFlag_def)
next
  case False
  then have "0 < length key" by simp
  then show ?thesis
    using False by (simp add: lookupConfigFlag_def Let_def strncmp0_prefix del: length_greater_0_conv)
qed

text \<open>
  C9. A token of two dashes and a text \<open>t\<close> is looked up as the first flag, in the
  order of declaration, whose name begins with \<open>t\<close> (the comparison runs over the length
  of \<open>t\<close>); a token of one dash and one other character (of a C string, so not NUL) as
  the first flag with that short name. With \<open>--verbose\<close> registered, the token \<open>--verb\<close>
  finds it; with \<open>--verbose\<close> registered before \<open>--verb\<close>, the token \<open>--verb\<close> is
  resolved to \<open>verbose\<close>, and parsing it succeeds and sets that flag alone.
\<close>

theorem lookupFlag_prefix_first_match:
  assumes "c \<noteq> CHR ''-''" and "c \<noteq> CHR 0x00"
  shows "lookupFlag fs (''--'' @ t) = find (\<lambda>item. \<exists>s. name item = t @ s) (flags fs)
     \<and> lookupFlag fs [CHR ''-'', c] = find (\<lambda>item. short_name item = c) (flags fs)
     \<and> map_option name (lookupFlag (fst ex_flags) ''--verb'') = Some ''verbose''
     \<and> map_option name (lookupFlag (fst ex_verb_flags) ''--verb'') = Some ''verbose''
     \<and> outcome (flagSetParse (ex_env []) 0 (fst ex_verb_flags) (snd ex_verb_flags)
          [''prog'', ''--verb'']) [0, 1]
        = Inr (True, FLAG_ERROR_CODE_NONE, [], [Some (CBool True), Some (CBool False)], [], [])"
proof -
  have long: "lookupFlag fs (''--'' @ t) = find (\<lambda>item. \<exists>s. name item = t @ s) (flags fs)"
    by (simp add: lookupFlag_def char_at_def strncmp0_prefix)
  have "(\<lambda>item. c = short_name item) = (\<lambda>item :: ('a, 'b) Flag. short_name item = c)"
    by auto
  then have short: "lookupFlag fs [CHR ''-'', c] = find (\<lambda>item. short_name item = c) (flags fs)"
    using assms(1) by (simp add: lookupFlag_def char_at_def)
  have ex0: "map_option name (lookupFlag (fst ex_flags) ''--verb'') = Some ''verbose''"
    by code_simp
  have ex1: "map_option name (lookupFlag (fst ex_verb_flags) ''--verb'') = Some ''verbose''"
    by code_simp
  have ex2: "outcome (flagSetParse (ex_env []) 0 (fst ex_verb_flags) (snd ex_verb_flags)
          [''prog'', ''--verb'']) [0, 1]
        = Inr (True, FLAG_ERROR_CODE_NONE, [], [Some (CBool True), Some (CBool False)], [], [])"
    by code_simp
  from long short ex0 ex1 ex2 show ?thesis by blast
qed

theorem lookupFlag_prefix_first_match_witness:
  "CHR ''w'' \<noteq> CHR ''-'' \<and> CHR ''w'' \<noteq> CHR 0x00
   \<and> map_option name (lookupFlag (fst ex_flags) ''--co'') = Some ''count''
   \<and> map_option name (lookupFlag (fst ex_flags) ''-w'') = Some ''when''"
proof -
  have h: "CHR ''w'' \<noteq> CHR ''-''" by simp
  have h0: "CHR ''w'' \<noteq> CHR 0x00" by simp
  have f1: "map_option name (find (\<lambda>item. \<exists>s. name item = ''co'' @ s) (flags (fst ex_flags)))
              = Some ''count''"
    by (simp add: ex_flags_def registered_def and_then_def flagSetBoolVar_def
          flagSetStringVar_def flagSetIntVar_def flagSetTimeVar_def flagMake_def
          flagSetNew_def FLAGS_MAX_def)
  have f2: "map_option name (find (\<lambda>item. short_name item = CHR ''w'') (flags (fst ex_flags)))
              = Some ''when''"
    by code_simp
  from lookupFlag_prefix_first_match [OF h h0, of "fst ex_flags" "''co''"] f1 f2
  show ?thesis by simp
qed

text \<open>
  C3, as the claim states it: text with characters left over after the digits gives
  InvalidValue. It does not: of \<open>12abc\<close>, \<open>strtol\<close> consumes two characters, and the
  value 12 is stored with no error, from the command line as from a config file.
\<close>

theorem int_leftover_counterexample:
  "strtol ''12abc'' = (12, 2)
   \<and> outcome (flagSetParse (ex_env []) 0 (fst ex_flags) (snd ex_flags)
        [''prog'', ''--count'', ''12abc'']) [2]
     = Inr (True, FLAG_ERROR_CODE_NONE, [], [Some (CInt 12)], [], [])
   \<and> outcome (parseIniConfig (ex_env [(''n.ini'', ''count = 12abc\<newline>'')]) 1
        (fst ex_flags) (snd ex_flags) ''n.ini'') [2]
     = Inr (True, FLAG_ERROR_CODE_NONE, [], [Some (CInt 12)], [], 
            [Ev_fopen ''n.ini'', Ev_malloc_parser ''n.ini''])"
  by code_simp

text \<open>
  C3, amended. On both paths the text goes through \<open>strtol\<close> in base 10. If \<open>strtol\<close>
  consumes no character, or its value is outside the signed 32-bit range, the result is
  InvalidValue naming the flag, and no variable of the caller is written. Otherwise the
  value is stored, whatever follows the digits: for digits \<open>ds\<close> followed by a text \<open>r\<close>
  that does not start with a digit, the value is that of \<open>ds\<close> (clamped to \<open>long\<close>) and
  \<open>r\<close> is ignored.
\<close>

theorem int_coercion_checks_start_and_range:
  assumes "type conf = FLAG_TYPE_INT"
    and "\<not> isConfigFlag fs tok" and "lookupFlag fs tok = Some conf"
  shows "flagSetParse e fuel fs w [prog, tok, v] =
          (if snd (strtol v) = 0 \<or> fst (strtol v) < INT_MIN \<or> INT_MAX < fst (strtol v)
           then Inr (False, setError fs FLAG_ERROR_CODE_INVALID_VALUE (name conf), w)
           else Inr (True, fs, store w (ptr conf) (CInt (word_of_int (fst (strtol v))))))
     \<and> parseIniConfig_switch e fs w p conf v n =
          (if snd (strtol v) = 0 \<or> fst (strtol v) < INT_MIN \<or> INT_MAX < fst (strtol v)
           then Inl (setError fs FLAG_ERROR_CODE_INVALID_VALUE (name conf),
                     iniParserFree (Some p) w)
           else Inr (store w (ptr conf) (CInt (word_of_int (fst (strtol v))))))
     \<and> mem (iniParserFree (Some p) w) = mem w
     \<and> (ds \<noteq> [] \<and> list_all isdigit ds \<and> (r = [] \<or> \<not> isdigit (hd r))
          \<longrightarrow> strtol (ds @ r) = (min LONG_MAX (digits_val 0 ds), length ds))"
proof -
  have arg: "flagSetParse e fuel fs w [prog, tok, v] =
          (if snd (strtol v) = 0 \<or> fst (strtol v) < INT_MIN \<or> INT_MAX < fst (strtol v)
           then Inr (False, setError fs FLAG_ERROR_CODE_INVALID_VALUE (name conf), w)
           else Inr (True, fs, store w (ptr conf) (CInt (word_of_int (fst (strtol v))))))"
    by (simp add: flagSetParse_token [OF assms(2,3)] flagSetParse_switch_def assms(1)
          split: prod.splits)
  have ini: "parseIniConfig_switch e fs w p conf v n =
          (if snd (strtol v) = 0 \<or> fst (strtol v) < INT_MIN \<or> INT_MAX < fst (strtol v)
           then Inl (setError fs FLAG_ERROR_CODE_INVALID_VALUE (name conf),
                     iniParserFree (Some p) w)
           else Inr (store w (ptr conf) (CInt (word_of_int (fst (strtol v))))))"
    by (simp add: parseIniConfig_switch_def assms(1) split: prod.splits)
  show ?thesis
    using arg ini mem_iniParserFree [of "Some p" w] strtol_digits [of ds r] by blast
qed

theorem int_coercion_checks_start_and_range_witness:
  "type ex_count_flag = FLAG_TYPE_INT
   \<and> \<not> isConfigFlag (fst ex_flags) ''--count''
   \<and> lookupFlag (fst ex_flags) ''--count'' = Some ex_count_flag
   \<and> flagSetParse (ex_env []) 0 (fst ex_flags) (snd ex_flags) [''prog'', ''--count'', ''12abc'']
       = Inr (True, fst ex_flags, store (snd ex_flags) 2 (CInt 12))
   \<and> flagSetParse (ex_env []) 0 (fst ex_flags) (snd ex_flags) [''prog'', ''--count'', ''abc'']
       = Inr (False, setError (fst ex_flags) FLAG_ERROR_CODE_INVALID_VALUE ''count'',
              snd ex_flags)
   \<and> flagSetParse (ex_env []) 0 (fst ex_flags) (snd ex_flags)
        [''prog'', ''--count'', ''2147483648'']
       = Inr (False, setError (fst ex_flags) FLAG_ERROR_CODE_INVALID_VALUE ''count'',
              snd ex_flags)"
proof -
  have h1: "type ex_count_flag = FLAG_TYPE_INT"
    by (simp add: ex_count_flag_def)
  have h2: "\<not> isConfigFlag (fst ex_flags) ''--count''"
    by code_simp
  have h3: "lookupFlag (fst ex_flags) ''--count'' = Some ex_count_flag"
    by code_simp
  have s1: "strtol ''12abc'' = (12, 2)" by code_simp
  have s2: "strtol ''abc'' = (0, 0)" by code_simp
  have s3: "strtol ''2147483648'' = (2147483648, 10)" by code_simp
  note t = int_coercion_checks_start_and_range [OF h1 h2 h3, of "ex_env []" 0 "snd ex_flags" "''prog''"]
  have a: "flagSetParse (ex_env []) 0 (fst ex_flags) (snd ex_flags)
             [''prog'', ''--count'', ''12abc'']
           = Inr (True, fst ex_flags, store (snd ex_flags) 2 (CInt 12))"
    using t [of "''12abc''"] by (simp add: s1 INT_MIN_def INT_MAX_def ex_count_flag_def)
  have b: "flagSetParse (ex_env []) 0 (fst ex_flags) (snd ex_flags) [''prog'', ''--count'', ''abc'']
       = Inr (False, setError (fst ex_flags) FLAG_ERROR_CODE_INVALID_VALUE ''count'',
              snd ex_flags)"
    using t [of "''abc''"] by (simp add: s2 ex_count_flag_def)
  have c: "flagSetParse (ex_env []) 0 (fst ex_flags) (snd ex_flags)
        [''prog'', ''--count'', ''2147483648'']
       = Inr (False, setError (fst ex_flags) FLAG_ERROR_CODE_INVALID_VALUE ''count'',
              snd ex_flags)"
    using t [of "''2147483648''"] by (simp add: s3 INT_MIN_def INT_MAX_def ex_count_flag_def)
  from h1 h2 h3 a b c show ?thesis by blast
qed

text \<open>
  C8, as the claim states it: a String flag set from a command-line token receives a
  copy. It does not: after \<open>--name bob\<close> the variable holds the pointer \<open>argv[2]\<close> of the
  caller, and nothing was allocated.
\<close>

theorem string_arg_counterexample:
  "outcome (flagSetParse (ex_env []) 0 (fst ex_flags) (snd ex_flags)
        [''prog'', ''--name'', ''bob'']) [1]
     = Inr (True, FLAG_ERROR_CODE_NONE, [], [Some (CString (ArgvPtr 2))], [], [])"
  by code_simp

text \<open>
  C8, amended. From a config-file value a String flag receives a pointer to a new block
  of the heap that holds a copy of the first \<open>value_len\<close> bytes of the value, unescaped,
  the blocks allocated before left as they were. From a command-line token it receives
  the pointer to the token itself, in the caller's \<open>argv\<close>; nothing is copied.
\<close>

theorem string_coercion_copies_config_value_only:
  assumes "type conf = FLAG_TYPE_STRING"
    and "\<not> isConfigFlag fs tok" and "lookupFlag fs tok = Some conf"
  shows "flagSetParse e fuel fs w [prog, tok, v]
           = Inr (True, fs, store w (ptr conf) (CString (ArgvPtr 2)))
     \<and> [prog, tok, v] ! 2 = v
     \<and> heap (store w (ptr conf) (CString (ArgvPtr 2))) = heap w
     \<and> (\<exists>w'. parseIniConfig_switch e fs w p conf buf n = Inr w'
            \<and> mem w' (ptr conf) = Some (CString (HeapPtr (length (heap w))))
            \<and> length (heap w') = Suc (length (heap w))
            \<and> take (length (heap w)) (heap w') = heap w
            \<and> hb_bytes (heap w' ! length (heap w)) = take n buf @ [CHR 0x00])"
proof -
  have arg: "flagSetParse e fuel fs w [prog, tok, v]
           = Inr (True, fs, store w (ptr conf) (CString (ArgvPtr 2)))"
    by (simp add: flagSetParse_token [OF assms(2,3)] flagSetParse_switch_def assms(1))
  have len: "take (if length buf < n then length buf else n) buf = take n buf"
    by simp
  have ini: "\<exists>w'. parseIniConfig_switch e fs w p conf buf n = Inr w'
            \<and> mem w' (ptr conf) = Some (CString (HeapPtr (length (heap w))))
            \<and> length (heap w') = Suc (length (heap w))
            \<and> take (length (heap w)) (heap w') = heap w
            \<and> hb_bytes (heap w' ! length (heap w)) = take n buf @ [CHR 0x00]"
    by (simp add: parseIniConfig_switch_def assms(1) stringDuplicate_def store_def Let_def len)
  show ?thesis
    using arg ini by (simp add: store_def)
qed

theorem string_coercion_copies_config_value_only_witness:
  "type ex_name_flag = FLAG_TYPE_STRING
   \<and> \<not> isConfigFlag (fst ex_flags) ''--name''
   \<and> lookupFlag (fst ex_flags) ''--name'' = Some ex_name_flag
   \<and> flagSetParse (ex_env []) 0 (fst ex_flags) (snd ex_flags) [''prog'', ''--name'', ''bob'']
       = Inr (True, fst ex_flags, store (snd ex_flags) 1 (CString (ArgvPtr 2)))"
proof -
  have h1: "type ex_name_flag = FLAG_TYPE_STRING"
    by (simp add: ex_name_flag_def)
  have h2: "\<not> isConfigFlag (fst ex_flags) ''--name''"
    by code_simp
  have h3: "lookupFlag (fst ex_flags) ''--name'' = Some ex_name_flag"
    by code_simp
  have "flagSetParse (ex_env []) 0 (fst ex_flags) (snd ex_flags) [''prog'', ''--name'', ''bob'']
       = Inr (True, fst ex_flags, store (snd ex_flags) 1 (CString (ArgvPtr 2)))"
    using string_coercion_copies_config_value_only
            [OF h1 h2 h3, of "ex_env []" 0 "snd ex_flags" "''prog''" "''bob''"]
    by (simp add: ex_name_flag_def)
  with h1 h2 h3 show ?thesis by blast
qed

text \<open>
  C10, as the claim states it: with at least one flag registered, the token \<open>--\<close> is
  taken for the first of them. Not in every registry: where a config flag is registered,
  \<open>isConfigFlag\<close> is asked first, and the empty text matches the config flag's name as it
  matches every name; \<open>--\<close> as the last token then gives MissingValue naming \<open>--\<close>, and
  the first flag is not set.
\<close>

theorem dashdash_counterexample:
  "map (type) (flags (fst ex_flags))
     = [FLAG_TYPE_BOOL, FLAG_TYPE_STRING, FLAG_TYPE_INT, FLAG_TYPE_TIME]
   \<and> outcome (flagSetParse (ex_env []) 0
        (flagSetConfig (fst ex_flags) ''conf'' CHR ''f'' ''A config file'') (snd ex_flags)
        [''prog'', ''--'']) [0]
     = Inr (False, FLAG_ERROR_CODE_MISSING_VALUE, ''--'', [Some (CBool False)], [], [])"
  by code_simp

text \<open>
  C10, amended. In a registry with no config flag and with a first flag \<open>f\<close>, the
  token \<open>--\<close> is looked up as \<open>f\<close>, and wherever it stands among the tokens the parser
  goes on as for \<open>f\<close>: as the only token it sets a Bool \<open>f\<close> to true and succeeds, and for
  \<open>f\<close> of another type it reports the missing value of \<open>f\<close>; it is never an unknown flag.
\<close>

theorem dashdash_is_first_flag:
  assumes "config_flag_name fs = None" and "flags fs = f # fl"
  shows "lookupFlag fs ''--'' = Some f
     \<and> flagSetParse_loop e fuel fs w i (''--'' # args) =
          (case flagSetParse_switch e fs w f (Suc i) args of
             Inl fs1 \<Rightarrow> Inr (False, fs1, w)
           | Inr (w1, i1, args1) \<Rightarrow> flagSetParse_loop e fuel fs w1 i1 args1)
     \<and> flagSetParse e fuel fs w [prog, ''--''] =
          (if type f = FLAG_TYPE_BOOL then Inr (True, fs, store w (ptr f) (CBool True))
           else Inr (False, setError fs FLAG_ERROR_CODE_MISSING_VALUE (name f), w))"
proof -
  have l: "lookupFlag fs ''--'' = Some f"
    using assms(2) by (simp add: lookupFlag_def char_at_def strncmp0_def)
  have c: "\<not> isConfigFlag fs ''--''"
    using assms(1) by (simp add: isConfigFlag_def)
  have step: "flagSetParse_loop e fuel fs w i (''--'' # args) =
          (case flagSetParse_switch e fs w f (Suc i) args of
             Inl fs1 \<Rightarrow> Inr (False, fs1, w)
           | Inr (w1, i1, args1) \<Rightarrow> flagSetParse_loop e fuel fs w1 i1 args1)"
    using l c by simp
  have whole: "flagSetParse e fuel fs w [prog, ''--''] =
          (if type f = FLAG_TYPE_BOOL then Inr (True, fs, store w (ptr f) (CBool True))
           else Inr (False, setError fs FLAG_ERROR_CODE_MISSING_VALUE (name f), w))"
    by (cases "type f") (simp_all add: flagSetParse_token [OF c l] flagSetParse_switch_def)
  from l step whole show ?thesis by blast
qed

theorem dashdash_is_first_flag_witness:
  "config_flag_name (fst ex_flags) = None
   \<and> flags (fst ex_flags) = hd (flags (fst ex_flags)) # tl (flags (fst ex_flags))
   \<and> map_option name (lookupFlag (fst ex_flags) ''--'') = Some ''verbose''
   \<and> flagSetParse (ex_env []) 0 (fst ex_flags) (snd ex_flags) [''prog'', ''--'']
       = Inr (True, fst ex_flags, store (snd ex_flags) 0 (CBool True))"
proof -
  have h1: "config_flag_name (fst ex_flags) = None"
    by code_simp
  have h2: "flags (fst ex_flags) = hd (flags (fst ex_flags)) # tl (flags (fst ex_flags))"
    by code_simp
  have f: "name (hd (flags (fst ex_flags))) = ''verbose''"
    "type (hd (flags (fst ex_flags))) = FLAG_TYPE_BOOL"
    "ptr (hd (flags (fst ex_flags))) = 0"
    by code_simp+
  note t = dashdash_is_first_flag [OF h1 h2, of "ex_env []" 0 "snd ex_flags" 1 "[]" "''prog''"]
  have a: "map_option name (lookupFlag (fst ex_flags) ''--'') = Some ''verbose''"
    using t by (simp add: f)
  have b: "flagSetParse (ex_env []) 0 (fst ex_flags) (snd ex_flags) [''prog'', ''--'']
       = Inr (True, fst ex_flags, store (snd ex_flags) 0 (CBool True))"
    using t by (simp add: f)
  from h1 h2 a b show ?thesis by blast
qed

end
